theory Spec2Isabelle
  imports Complex_Main
begin

section \<open>Data model\<close>

text \<open>
  The order workflow of the shop backend: the Order schema and the route handlers that
  place an order from a cart and that update an order's status, as the three route files
  have them: the order routes that check the shipping address and restock on
  cancellation; \<^verbatim>\<open>backend/routes/orderRoutes.js\<close>, which does neither; and the
  combined routes file, which takes the shipping address from the request and stores the
  total unrounded. Documents are records; the collections are maps (products, users) and
  a list (orders: an order's identifier is its position). Quantities and stock are
  integers. Prices and totals are JavaScript numbers, that is binary64 values: a finite
  one is the rational it denotes, and every product and sum is rounded to the nearest
  binary64 value as the hardware does. Identifiers are well-formed, and a
  \<^verbatim>\<open>save()\<close> fails only when schema validation rejects the document.
\<close>

type_synonym product_id = nat
type_synonym user_id = nat
type_synonym order_id = nat

text \<open>
  The strings that the Order schema trims (payment method, shipping address) are lists
  of UTF-16 code units, since trimming depends on code units beyond ASCII; \<open>ascii\<close>
  writes one from a literal.
\<close>

type_synonym js_string = "nat list"

definition ascii :: "string \<Rightarrow> js_string" where
  "ascii s = map of_char s"

text \<open>
  Modelled from the spec: the Product schema with stock tracking is not among the
  sources (the only Product schema there has no \<^verbatim>\<open>stock\<close> field); the spec's
  Product has a name, a unit price and an integer available stock quantity.
\<close>

record product =
  name :: string
  price :: rat
  image :: string
  stock :: int

record cart_line =
  productId :: product_id
  quantity :: int

text \<open>An order line: the cart line's product and quantity, with the product's fields copied.\<close>

record order_item = cart_line +
  item_name :: string
  item_price :: rat
  item_image :: string

record user =
  address :: "js_string option"
  cart :: "cart_line list"

text \<open>A total: a finite binary64 value, an infinity, or not a number.\<close>

datatype number = Num rat | PosInfinity | NegInfinity | NaN

record order =
  userId :: user_id
  items :: "order_item list"
  totalAmount :: number
  paymentMethod :: js_string
  shippingAddress :: js_string
  status :: string

type_synonym products = "product_id \<rightharpoonup> product"

record db =
  users :: "user_id \<rightharpoonup> user"
  products :: products
  orders :: "order list"

record place_request =
  req_userId :: user_id
  req_paymentMethod :: "js_string option"
  req_shippingAddress :: "js_string option"
  cartItems :: "cart_line list option"

text \<open>Every \<^verbatim>\<open>res.status(c).json(...)\<close> of the handlers that is not a success.\<close>

datatype error =
    UserNotFound
  | MissingShippingAddress
  | EmptyCart
  | MissingOrderFields
  | ProductNotFound product_id
  | InsufficientStock string int
  | ServerError
  | OrderNotFound
  | InvalidStatus
  | InvalidTransition

fun http_status :: "error \<Rightarrow> nat" where
  "http_status UserNotFound = 404"
| "http_status MissingShippingAddress = 400"
| "http_status EmptyCart = 400"
| "http_status MissingOrderFields = 400"
| "http_status (ProductNotFound pid) = 404"
| "http_status (InsufficientStock nm available) = 400"
| "http_status ServerError = 500"
| "http_status OrderNotFound = 404"
| "http_status InvalidStatus = 400"
| "http_status InvalidTransition = 400"

section \<open>JavaScript numbers\<close>

text \<open>The number of binary digits of a positive integer.\<close>

function bit_length :: "int \<Rightarrow> int" where
  "bit_length a = (if a \<le> 0 then 0 else 1 + bit_length (a div 2))"
  by pat_completeness auto
termination
  by (relation "measure nat") auto

declare bit_length.simps [simp del]

definition pow2 :: "int \<Rightarrow> rat" where
  "pow2 k = (if 0 \<le> k then 2 ^ nat k else 1 / 2 ^ nat (- k))"

text \<open>The exponent \<open>e\<close> of a non-zero rational: \<open>2 ^ e \<le> \<bar>x\<bar> < 2 ^ (e + 1)\<close>.\<close>

definition binary_exponent :: "rat \<Rightarrow> int" where
  "binary_exponent x =
     (let (a, b) = quotient_of \<bar>x\<bar>;
          k = bit_length a - bit_length b
      in if pow2 k \<le> \<bar>x\<bar> then k else k - 1)"

definition round_half_even :: "rat \<Rightarrow> int" where
  "round_half_even x =
     (let f = \<lfloor>x\<rfloor>; d = x - of_int f
      in if d < 1 / 2 then f else if 1 / 2 < d then f + 1 else if f mod 2 = 0 then f else f + 1)"

text \<open>
  Rounding to binary64, to nearest with ties to even: 53 significant bits, exponents
  from -1022 (below it the spacing stays that of the subnormal numbers) to 1023 (above
  it the result is an infinity).
\<close>

definition to_double :: "rat \<Rightarrow> number" where
  "to_double x =
     (if x = 0 then Num 0
      else let e = max (binary_exponent x) (- 1022);
               n = round_half_even (x / pow2 (e - 52))
           in if 1023 < e \<or> (e = 1023 \<and> 2 ^ 53 \<le> \<bar>n\<bar>)
              then (if 0 < x then PosInfinity else NegInfinity)
              else Num (of_int n * pow2 (e - 52)))"

text \<open>
  \<^verbatim>\<open>product.price * item.quantity\<close>. A price written as a rational stands for the
  binary64 value nearest to it, which is what the document holds.
\<close>

fun number_times :: "number \<Rightarrow> int \<Rightarrow> number" where
  "number_times (Num a) q = to_double (a * of_int q)"
| "number_times PosInfinity q = (if q = 0 then NaN else if 0 < q then PosInfinity else NegInfinity)"
| "number_times NegInfinity q = (if q = 0 then NaN else if 0 < q then NegInfinity else PosInfinity)"
| "number_times NaN q = NaN"

definition number_mult :: "rat \<Rightarrow> int \<Rightarrow> number" where
  "number_mult p q = number_times (to_double p) q"

text \<open>\<^verbatim>\<open>totalAmount += ...\<close>.\<close>

fun number_add :: "number \<Rightarrow> number \<Rightarrow> number" where
  "number_add (Num a) (Num b) = to_double (a + b)"
| "number_add NaN y = NaN"
| "number_add x NaN = NaN"
| "number_add PosInfinity NegInfinity = NaN"
| "number_add NegInfinity PosInfinity = NaN"
| "number_add PosInfinity y = PosInfinity"
| "number_add NegInfinity y = NegInfinity"
| "number_add (Num a) PosInfinity = PosInfinity"
| "number_add (Num a) NegInfinity = NegInfinity"

text \<open>
  The integer \<open>n\<close> for which \<open>n / 100\<close> is nearest to \<open>x\<close>, the one of larger magnitude
  when two are as near: the digits that \<^verbatim>\<open>toFixed(2)\<close> prints.
\<close>

definition hundredths :: "rat \<Rightarrow> int" where
  "hundredths x = (if x < 0 then - \<lfloor>- x * 100 + 1 / 2\<rfloor> else \<lfloor>x * 100 + 1 / 2\<rfloor>)"

text \<open>
  \<^verbatim>\<open>totalAmount.toFixed(2)\<close>, read back as a number by the schema's cast: from
  \<open>10 ^ 21\<close> on, and for the values that are not finite, the string is the number's own.
\<close>

fun toFixed2 :: "number \<Rightarrow> number" where
  "toFixed2 (Num x) =
     (if 10 ^ 21 \<le> \<bar>x\<bar> then Num x else to_double (of_int (hundredths x) / 100))"
| "toFixed2 y = y"

section \<open>The Order schema\<close>

text \<open>The white space and line terminators that \<^verbatim>\<open>String.prototype.trim\<close> strips.\<close>

definition is_space :: "nat \<Rightarrow> bool" where
  "is_space c =
     (c \<in> set [0x09, 0x0A, 0x0B, 0x0C, 0x0D, 0x20, 0xA0, 0x1680, 0x2028, 0x2029, 0x202F,
               0x205F, 0x3000, 0xFEFF]
      \<or> (0x2000 \<le> c \<and> c \<le> 0x200A))"

definition trim :: "js_string \<Rightarrow> js_string" where
  "trim s = rev (dropWhile is_space (rev (dropWhile is_space s)))"

definition validStatuses :: "string list" where
  "validStatuses = [''pending'', ''confirmed'', ''shipped'', ''delivered'', ''cancelled'']"

text \<open>\<^verbatim>\<open>items[i]\<close>: name required, quantity at least 1, price at least 0.\<close>

definition valid_item :: "order_item \<Rightarrow> bool" where
  "valid_item it = (item_name it \<noteq> [] \<and> 1 \<le> quantity it \<and> 0 \<le> item_price it)"

text \<open>\<^verbatim>\<open>totalAmount\<close>: a number (the cast refuses NaN), at least 0.\<close>

fun valid_total :: "number \<Rightarrow> bool" where
  "valid_total (Num x) = (0 \<le> x)"
| "valid_total PosInfinity = True"
| "valid_total NegInfinity = False"
| "valid_total NaN = False"

text \<open>
  \<^verbatim>\<open>new Order({...}).save()\<close>: the trimming setters of the two string fields, then
  validation; \<open>None\<close> is the ValidationError.
\<close>

definition new_order ::
  "user_id \<Rightarrow> order_item list \<Rightarrow> number \<Rightarrow> js_string option \<Rightarrow> js_string option \<Rightarrow> order option" where
  "new_order uid its tot pm addr =
     (case pm of
        None \<Rightarrow> None
      | Some pm' \<Rightarrow>
          (case addr of
             None \<Rightarrow> None
           | Some addr' \<Rightarrow>
               if list_all valid_item its \<and> valid_total tot \<and> trim pm' \<noteq> [] \<and> trim addr' \<noteq> []
               then Some \<lparr>userId = uid, items = its, totalAmount = tot,
                          paymentMethod = trim pm', shippingAddress = trim addr',
                          status = ''pending''\<rparr>
               else None))"

section \<open>Stock: the per-line reservation and the restock\<close>

text \<open>
  The body of the placement loop up to \<^verbatim>\<open>await product.save()\<close>: look the product
  up, compare stock with the requested quantity, decrement and save. The loop of
  \<^verbatim>\<open>backend/routes/orderRoutes.js\<close> also refuses a product whose stock is
  \<^verbatim>\<open>undefined\<close>, which an integer stock never is.
\<close>

definition reserve :: "products \<Rightarrow> product_id \<Rightarrow> int \<Rightarrow> (error + product) \<times> products" where
  "reserve ps pid q =
     (case ps pid of
        None \<Rightarrow> (Inl (ProductNotFound pid), ps)
      | Some p \<Rightarrow>
          if stock p < q then (Inl (InsufficientStock (name p) (stock p)), ps)
          else (Inr (p\<lparr>stock := stock p - q\<rparr>), ps(pid \<mapsto> p\<lparr>stock := stock p - q\<rparr>)))"

text \<open>The body of the cancellation loop: a missing product is skipped with a warning.\<close>

definition restock :: "products \<Rightarrow> product_id \<Rightarrow> int \<Rightarrow> products" where
  "restock ps pid q =
     (case ps pid of
        None \<Rightarrow> ps
      | Some p \<Rightarrow> ps(pid \<mapsto> p\<lparr>stock := stock p + q\<rparr>))"

fun restock_items :: "products \<Rightarrow> order_item list \<Rightarrow> products" where
  "restock_items ps [] = ps"
| "restock_items ps (it # its) = restock_items (restock ps (productId it) (quantity it)) its"

definition snapshot :: "cart_line \<Rightarrow> product \<Rightarrow> order_item" where
  "snapshot item p =
     \<lparr>productId = productId item, quantity = quantity item,
      item_name = name p, item_price = price p, item_image = image p\<rparr>"

text \<open>
  \<^verbatim>\<open>for (const item of cartItems)\<close>: the first failing line returns its error; the
  products written for the lines before it stay written.
\<close>

fun process_items ::
  "products \<Rightarrow> cart_line list \<Rightarrow> order_item list \<Rightarrow> number
     \<Rightarrow> (error + order_item list \<times> number) \<times> products" where
  "process_items ps [] orderProducts tot = (Inr (orderProducts, tot), ps)"
| "process_items ps (item # rest) orderProducts tot =
     (case reserve ps (productId item) (quantity item) of
        (Inl e, ps') \<Rightarrow> (Inl e, ps')
      | (Inr p, ps') \<Rightarrow>
          process_items ps' rest (orderProducts @ [snapshot item p])
            (number_add tot (number_mult (price p) (quantity item))))"

section \<open>Placing an order\<close>

text \<open>\<^verbatim>\<open>!x\<close> on a string that may be missing: missing or empty.\<close>

definition falsy :: "js_string option \<Rightarrow> bool" where
  "falsy a = (a = None \<or> a = Some [])"

definition usable_address :: "js_string option \<Rightarrow> bool" where
  "usable_address a = (\<not> falsy a \<and> a \<noteq> Some (ascii ''N/A''))"

definition empty_cart :: "cart_line list option \<Rightarrow> bool" where
  "empty_cart c = (c = None \<or> c = Some [])"

text \<open>
  The tail shared by the versions of the handler: the loop, then the order's
  construction and save. \<open>fixed\<close> tells whether the total goes through
  \<^verbatim>\<open>toFixed(2)\<close>, \<open>clear\<close> whether the user's cart is emptied afterwards.
\<close>

definition build_order ::
  "db \<Rightarrow> user_id \<Rightarrow> user \<Rightarrow> js_string option \<Rightarrow> js_string option \<Rightarrow> cart_line list
     \<Rightarrow> bool \<Rightarrow> bool \<Rightarrow> (error + order) \<times> db" where
  "build_order d uid u pm addr lines fixed clear =
     (case process_items (products d) lines [] (Num 0) of
        (Inl e, ps) \<Rightarrow> (Inl e, d\<lparr>products := ps\<rparr>)
      | (Inr (its, tot), ps) \<Rightarrow>
          (case new_order uid its (if fixed then toFixed2 tot else tot) pm addr of
             None \<Rightarrow> (Inl ServerError, d\<lparr>products := ps\<rparr>)
           | Some ord \<Rightarrow>
               (Inr ord,
                d\<lparr>products := ps, orders := orders d @ [ord],
                  users := (if clear then (users d)(uid \<mapsto> u\<lparr>cart := []\<rparr>) else users d)\<rparr>)))"

text \<open>The handler with the shipping-address check, which also clears the user's cart.\<close>

definition place_order :: "db \<Rightarrow> place_request \<Rightarrow> (error + order) \<times> db" where
  "place_order d r =
     (case users d (req_userId r) of
        None \<Rightarrow> (Inl UserNotFound, d)
      | Some u \<Rightarrow>
          if \<not> usable_address (address u) then (Inl MissingShippingAddress, d)
          else if empty_cart (cartItems r) then (Inl EmptyCart, d)
          else build_order d (req_userId r) u (req_paymentMethod r) (address u)
                 (case cartItems r of None \<Rightarrow> [] | Some ls \<Rightarrow> ls) True True)"

text \<open>The handler of \<^verbatim>\<open>backend/routes/orderRoutes.js\<close>: no address check, no cart clearing.\<close>

definition place_order_backend :: "db \<Rightarrow> place_request \<Rightarrow> (error + order) \<times> db" where
  "place_order_backend d r =
     (case users d (req_userId r) of
        None \<Rightarrow> (Inl UserNotFound, d)
      | Some u \<Rightarrow>
          if empty_cart (cartItems r) then (Inl EmptyCart, d)
          else build_order d (req_userId r) u (req_paymentMethod r) (address u)
                 (case cartItems r of None \<Rightarrow> [] | Some ls \<Rightarrow> ls) True False)"

text \<open>
  The handler of the combined routes file: the request must carry a payment method, a
  shipping address and a cart; the address stored is the request's, and the total is
  stored as computed.
\<close>

definition place_order_combined :: "db \<Rightarrow> place_request \<Rightarrow> (error + order) \<times> db" where
  "place_order_combined d r =
     (if falsy (req_paymentMethod r) \<or> falsy (req_shippingAddress r) \<or> empty_cart (cartItems r)
      then (Inl MissingOrderFields, d)
      else
        (case users d (req_userId r) of
           None \<Rightarrow> (Inl UserNotFound, d)
         | Some u \<Rightarrow>
             build_order d (req_userId r) u (req_paymentMethod r) (req_shippingAddress r)
               (case cartItems r of None \<Rightarrow> [] | Some ls \<Rightarrow> ls) False True))"

section \<open>Updating an order's status\<close>

definition set_status :: "db \<Rightarrow> order_id \<Rightarrow> string \<Rightarrow> (error + order) \<times> db" where
  "set_status d oid s =
     (Inr ((orders d ! oid)\<lparr>status := s\<rparr>),
      d\<lparr>orders := (orders d)[oid := (orders d ! oid)\<lparr>status := s\<rparr>]\<rparr>)"

text \<open>The handler with the cancellation branch and the guard on a cancelled order.\<close>

definition update_order_status :: "db \<Rightarrow> order_id \<Rightarrow> string \<Rightarrow> (error + order) \<times> db" where
  "update_order_status d oid s =
     (if length (orders d) \<le> oid then (Inl OrderNotFound, d)
      else if s \<notin> set validStatuses then (Inl InvalidStatus, d)
      else if s = ''cancelled'' \<and> status (orders d ! oid) \<noteq> ''cancelled''
        then set_status (d\<lparr>products := restock_items (products d) (items (orders d ! oid))\<rparr>) oid s
      else if status (orders d ! oid) = ''cancelled'' \<and> s \<noteq> ''cancelled''
        then (Inl InvalidTransition, d)
      else set_status d oid s)"

text \<open>The handler of \<^verbatim>\<open>backend/routes/orderRoutes.js\<close>: validation, then the assignment.\<close>

definition update_order_status_backend :: "db \<Rightarrow> order_id \<Rightarrow> string \<Rightarrow> (error + order) \<times> db" where
  "update_order_status_backend d oid s =
     (if length (orders d) \<le> oid then (Inl OrderNotFound, d)
      else if s \<notin> set validStatuses then (Inl InvalidStatus, d)
      else set_status d oid s)"

text \<open>The handler of the combined routes file: the status is validated before the lookup.\<close>

definition update_order_status_combined :: "db \<Rightarrow> order_id \<Rightarrow> string \<Rightarrow> (error + order) \<times> db" where
  "update_order_status_combined d oid s =
     (if s \<notin> set validStatuses then (Inl InvalidStatus, d)
      else if length (orders d) \<le> oid then (Inl OrderNotFound, d)
      else set_status d oid s)"

section \<open>Two reservations in flight\<close>

text \<open>
  A reservation reaches the database twice, at its two \<^verbatim>\<open>await\<close>s: \<open>read_check\<close> is
  \<^verbatim>\<open>findById\<close> with the two tests on the document it returned, \<open>write_back\<close> the
  decrement of that document and its \<^verbatim>\<open>save()\<close>. Another request can reach the
  database between the two.
\<close>

definition read_check :: "products \<Rightarrow> product_id \<Rightarrow> int \<Rightarrow> error + product" where
  "read_check ps pid q =
     (case ps pid of
        None \<Rightarrow> Inl (ProductNotFound pid)
      | Some p \<Rightarrow> if stock p < q then Inl (InsufficientStock (name p) (stock p)) else Inr p)"

definition write_back :: "products \<Rightarrow> product_id \<Rightarrow> int \<Rightarrow> product \<Rightarrow> product \<times> products" where
  "write_back ps pid q p = (p\<lparr>stock := stock p - q\<rparr>, ps(pid \<mapsto> p\<lparr>stock := stock p - q\<rparr>))"

text \<open>
  A reservation that has not read yet, one that holds the document it read, and one
  that has answered.
\<close>

datatype reservation =
    Waiting product_id int
  | Loaded product_id int product
  | Settled "error + product"

fun advance :: "products \<Rightarrow> reservation \<Rightarrow> reservation \<times> products" where
  "advance ps (Waiting pid q) =
     (case read_check ps pid q of
        Inl e \<Rightarrow> (Settled (Inl e), ps)
      | Inr p \<Rightarrow> (Loaded pid q p, ps))"
| "advance ps (Loaded pid q p) =
     (Settled (Inr (fst (write_back ps pid q p))), snd (write_back ps pid q p))"
| "advance ps (Settled r) = (Settled r, ps)"

datatype turn = First | Second

text \<open>Two reservations taking their database steps in the order of a schedule.\<close>

fun interleave ::
  "products \<Rightarrow> reservation \<Rightarrow> reservation \<Rightarrow> turn list \<Rightarrow> reservation \<times> reservation \<times> products" where
  "interleave ps a b [] = (a, b, ps)"
| "interleave ps a b (First # sch) = interleave (snd (advance ps a)) (fst (advance ps a)) b sch"
| "interleave ps a b (Second # sch) = interleave (snd (advance ps b)) a (fst (advance ps b)) sch"

definition succeeded :: "reservation \<Rightarrow> bool" where
  "succeeded a = (case a of Settled (Inr p) \<Rightarrow> True | _ \<Rightarrow> False)"

section \<open>Request sequences\<close>

text \<open>
  The price assignment of the product update route
  (\<^verbatim>\<open>product.price = price !== undefined ? price : product.price\<close>, then save):
  a missing product is a 404 and nothing is written.
\<close>

definition update_product_price :: "db \<Rightarrow> product_id \<Rightarrow> rat \<Rightarrow> db" where
  "update_product_price d pid pr =
     (case products d pid of
        None \<Rightarrow> d
      | Some p \<Rightarrow> d\<lparr>products := (products d)(pid \<mapsto> p\<lparr>price := pr\<rparr>)\<rparr>)"

datatype request =
    PlaceOrder place_request
  | UpdateOrderStatus order_id string
  | PlaceOrderBackend place_request
  | UpdateOrderStatusBackend order_id string
  | PlaceOrderCombined place_request
  | UpdateOrderStatusCombined order_id string
  | UpdateProductPrice product_id rat

fun handle :: "db \<Rightarrow> request \<Rightarrow> db" where
  "handle d (PlaceOrder r) = snd (place_order d r)"
| "handle d (UpdateOrderStatus oid s) = snd (update_order_status d oid s)"
| "handle d (PlaceOrderBackend r) = snd (place_order_backend d r)"
| "handle d (UpdateOrderStatusBackend oid s) = snd (update_order_status_backend d oid s)"
| "handle d (PlaceOrderCombined r) = snd (place_order_combined d r)"
| "handle d (UpdateOrderStatusCombined oid s) = snd (update_order_status_combined d oid s)"
| "handle d (UpdateProductPrice pid pr) = update_product_price d pid pr"

definition run :: "db \<Rightarrow> request list \<Rightarrow> db" where
  "run d rs = foldl handle d rs"

text \<open>A sequence of status updates of one order, by the handler with the cancellation branch.\<close>

definition update_sequence :: "db \<Rightarrow> order_id \<Rightarrow> string list \<Rightarrow> db" where
  "update_sequence d oid ss = foldl (\<lambda>d' s. snd (update_order_status d' oid s)) d ss"

section \<open>Quantities the properties speak of\<close>

text \<open>The exact sum of an order's line prices times quantities.\<close>

definition order_sum :: "order_item list \<Rightarrow> rat" where
  "order_sum its = sum_list (map (\<lambda>it. item_price it * of_int (quantity it)) its)"

text \<open>
  The total as the handlers compute it: from 0, each line's price times quantity added
  in turn, every product and every sum a binary64 value.
\<close>

definition running_total_from :: "number \<Rightarrow> order_item list \<Rightarrow> number" where
  "running_total_from t its =
     foldl (\<lambda>t' it. number_add t' (number_mult (item_price it) (quantity it))) t its"

definition running_total :: "order_item list \<Rightarrow> number" where
  "running_total its = running_total_from (Num 0) its"

text \<open>The total quantity that the lines of a list ask of one product.\<close>

definition line_quantity :: "product_id \<Rightarrow> cart_line list \<Rightarrow> int" where
  "line_quantity pid ls = sum_list (map quantity (filter (\<lambda>l. productId l = pid) ls))"

definition item_quantity :: "product_id \<Rightarrow> order_item list \<Rightarrow> int" where
  "item_quantity pid its = sum_list (map quantity (filter (\<lambda>it. productId it = pid) its))"

text \<open>The lines of a cart that the placement loop reserves before its first failing line.\<close>

fun reserved_lines :: "products \<Rightarrow> cart_line list \<Rightarrow> cart_line list" where
  "reserved_lines ps [] = []"
| "reserved_lines ps (item # rest) =
     (case reserve ps (productId item) (quantity item) of
        (Inl e, ps') \<Rightarrow> []
      | (Inr p, ps') \<Rightarrow> item # reserved_lines ps' rest)"

text \<open>A products collection with every stock lowered by an amount per product.\<close>

definition lower_stock :: "products \<Rightarrow> (product_id \<Rightarrow> int) \<Rightarrow> products" where
  "lower_stock ps f = (\<lambda>pid. map_option (\<lambda>p. p\<lparr>stock := stock p - f pid\<rparr>) (ps pid))"

definition is_line_error :: "error \<Rightarrow> bool" where
  "is_line_error e = (case e of ProductNotFound pid \<Rightarrow> True | InsufficientStock nm av \<Rightarrow> True | _ \<Rightarrow> False)"

text \<open>
  The invariants of the stored data: no product has negative stock, and every stored
  order's lines pass the Order schema (which only \<^verbatim>\<open>save()\<close> writes).
\<close>

definition stock_nonneg :: "products \<Rightarrow> bool" where
  "stock_nonneg ps = (\<forall>pid p. ps pid = Some p \<longrightarrow> 0 \<le> stock p)"

definition orders_valid :: "db \<Rightarrow> bool" where
  "orders_valid d = list_all (\<lambda>ord. list_all valid_item (items ord)) (orders d)"

text \<open>
  A later state keeps the orders of an earlier one: none is removed, and the lines and
  the total of each are what they were.
\<close>

definition orders_kept :: "db \<Rightarrow> db \<Rightarrow> bool" where
  "orders_kept d d' =
     (length (orders d) \<le> length (orders d') \<and>
      (\<forall>i < length (orders d). items (orders d' ! i) = items (orders d ! i) \<and>
          totalAmount (orders d' ! i) = totalAmount (orders d ! i)))"

text \<open>A reservation that holds a document holds one that passed the stock test.\<close>

fun covered :: "reservation \<Rightarrow> bool" where
  "covered (Loaded pid q p) = (q \<le> stock p)"
| "covered a = True"

section \<open>Example states\<close>

definition product_A :: product where
  "product_A = \<lparr>name = ''A'', price = 10, image = ''a.png'', stock = 5\<rparr>"

definition product_B :: product where
  "product_B = \<lparr>name = ''B'', price = 5, image = ''b.png'', stock = 2\<rparr>"

definition shop_products :: products where
  "shop_products = [1 \<mapsto> product_A, 2 \<mapsto> product_B]"

definition customer :: user where
  "customer = \<lparr>address = Some (ascii ''12 High Street''), cart = []\<rparr>"

definition shop :: db where
  "shop = \<lparr>users = [7 \<mapsto> customer], products = shop_products, orders = []\<rparr>"

text \<open>
  The requests of the examples: a cart whose second line asks more than the stock; a
  cart that can be served; a line with a negative quantity.
\<close>

definition two_line_request :: place_request where
  "two_line_request =
     \<lparr>req_userId = 7, req_paymentMethod = Some (ascii ''COD''), req_shippingAddress = None,
      cartItems = Some [\<lparr>productId = 1, quantity = 3\<rparr>, \<lparr>productId = 2, quantity = 10\<rparr>]\<rparr>"

definition order_request :: place_request where
  "order_request =
     \<lparr>req_userId = 7, req_paymentMethod = Some (ascii ''COD''), req_shippingAddress = None,
      cartItems = Some [\<lparr>productId = 1, quantity = 2\<rparr>, \<lparr>productId = 2, quantity = 1\<rparr>]\<rparr>"

definition negative_request :: place_request where
  "negative_request =
     \<lparr>req_userId = 7, req_paymentMethod = Some (ascii ''COD''), req_shippingAddress = None,
      cartItems = Some [\<lparr>productId = 1, quantity = - 3\<rparr>]\<rparr>"

text \<open>
  The served cart's order, the state after placing it, and the state after cancelling it.
\<close>

definition placed_order :: order where
  "placed_order =
     \<lparr>userId = 7,
      items = [\<lparr>productId = 1, quantity = 2, item_name = ''A'', item_price = 10, item_image = ''a.png''\<rparr>,
               \<lparr>productId = 2, quantity = 1, item_name = ''B'', item_price = 5, item_image = ''b.png''\<rparr>],
      totalAmount = Num 25, paymentMethod = ascii ''COD'', shippingAddress = ascii ''12 High Street'',
      status = ''pending''\<rparr>"

definition shop_placed :: db where
  "shop_placed =
     \<lparr>users = [7 \<mapsto> customer],
      products = [1 \<mapsto> product_A\<lparr>stock := 3\<rparr>, 2 \<mapsto> product_B\<lparr>stock := 1\<rparr>],
      orders = [placed_order]\<rparr>"

definition shop_cancelled :: db where
  "shop_cancelled =
     \<lparr>users = [7 \<mapsto> customer], products = shop_products,
      orders = [placed_order\<lparr>status := ''cancelled''\<rparr>]\<rparr>"

text \<open>
  A user whose profile address is the placeholder, and one whose profile has none.
\<close>

definition na_customer :: user where
  "na_customer = \<lparr>address = Some (ascii ''N/A''), cart = []\<rparr>"

definition na_shop :: db where
  "na_shop = \<lparr>users = [7 \<mapsto> na_customer], products = shop_products, orders = []\<rparr>"

definition no_address_shop :: db where
  "no_address_shop = \<lparr>users = [7 \<mapsto> \<lparr>address = None, cart = []\<rparr>], products = shop_products, orders = []\<rparr>"

text \<open>
  Two products whose prices have more than two decimals: an eighth, and the binary64
  value nearest to 1.005, which lies below it. The orders of one unit of each.
\<close>

definition product_C :: product where
  "product_C = \<lparr>name = ''C'', price = 1 / 8, image = ''c.png'', stock = 4\<rparr>"

definition product_D :: product where
  "product_D =
     \<lparr>name = ''D'', price = 1131529406376837 / 1125899906842624, image = ''d.png'', stock = 4\<rparr>"

definition fraction_shop :: db where
  "fraction_shop =
     \<lparr>users = [7 \<mapsto> customer], products = [3 \<mapsto> product_C, 4 \<mapsto> product_D], orders = []\<rparr>"

definition eighth_request :: place_request where
  "eighth_request =
     \<lparr>req_userId = 7, req_paymentMethod = Some (ascii ''COD''),
      req_shippingAddress = Some (ascii ''12 High Street''),
      cartItems = Some [\<lparr>productId = 3, quantity = 1\<rparr>]\<rparr>"

definition eighth_items :: "order_item list" where
  "eighth_items =
     [\<lparr>productId = 3, quantity = 1, item_name = ''C'', item_price = 1 / 8, item_image = ''c.png''\<rparr>]"

definition eighth_order :: order where
  "eighth_order =
     \<lparr>userId = 7, items = eighth_items,
      totalAmount = Num (1170935903116329 / 9007199254740992),
      paymentMethod = ascii ''COD'', shippingAddress = ascii ''12 High Street'',
      status = ''pending''\<rparr>"

definition cent_request :: place_request where
  "cent_request =
     \<lparr>req_userId = 7, req_paymentMethod = Some (ascii ''COD''),
      req_shippingAddress = Some (ascii ''12 High Street''),
      cartItems = Some [\<lparr>productId = 4, quantity = 1\<rparr>]\<rparr>"

definition cent_items :: "order_item list" where
  "cent_items =
     [\<lparr>productId = 4, quantity = 1, item_name = ''D'',
       item_price = 1131529406376837 / 1125899906842624, item_image = ''d.png''\<rparr>]"

definition cent_order :: order where
  "cent_order =
     \<lparr>userId = 7, items = cent_items, totalAmount = Num 1,
      paymentMethod = ascii ''COD'', shippingAddress = ascii ''12 High Street'',
      status = ''pending''\<rparr>"

text \<open>A sequence of requests through the versions of the handlers.\<close>

definition busy_day :: "request list" where
  "busy_day =
     [PlaceOrder order_request, UpdateProductPrice 1 99, UpdateOrderStatus 0 ''shipped'',
      PlaceOrderBackend two_line_request, UpdateOrderStatus 0 ''cancelled'',
      UpdateOrderStatusBackend 0 ''pending'', UpdateOrderStatus 0 ''cancelled'']"

text \<open>A product with ten in stock, of which two requests ask six each.\<close>

definition product_T :: product where
  "product_T = \<lparr>name = ''T'', price = 3, image = ''t.png'', stock = 10\<rparr>"

definition ten_products :: products where
  "ten_products = [5 \<mapsto> product_T]"

lemmas handler_defs =
  place_order_def place_order_backend_def place_order_combined_def build_order_def reserve_def
  new_order_def valid_item_def trim_def is_space_def usable_address_def falsy_def
  empty_cart_def snapshot_def number_mult_def ascii_def

lemmas status_defs =
  update_order_status_def update_order_status_backend_def update_order_status_combined_def
  set_status_def validStatuses_def restock_def

lemmas example_defs =
  shop_def shop_products_def product_A_def product_B_def customer_def two_line_request_def
  order_request_def negative_request_def placed_order_def shop_placed_def shop_cancelled_def
  na_customer_def na_shop_def no_address_shop_def product_C_def product_D_def
  fraction_shop_def eighth_request_def eighth_items_def eighth_order_def cent_request_def
  cent_items_def cent_order_def

section \<open>The stock ledger\<close>

text \<open>
  C4. For every product and quantity, the reservation fails with the not-found error when
  the product does not exist; fails with the insufficient-stock error, which reports the
  available amount, when the product exists with less stock than requested, and then
  writes nothing; and otherwise succeeds with the stock lowered by exactly the quantity.
\<close>

theorem reserve_contract:
  "(ps pid = None \<longrightarrow> reserve ps pid q = (Inl (ProductNotFound pid), ps)) \<and>
   (\<forall>p. ps pid = Some p \<and> stock p < q \<longrightarrow>
      reserve ps pid q = (Inl (InsufficientStock (name p) (stock p)), ps)) \<and>
   (\<forall>p. ps pid = Some p \<and> q \<le> stock p \<longrightarrow>
      reserve ps pid q = (Inr (p\<lparr>stock := stock p - q\<rparr>), ps(pid \<mapsto> p\<lparr>stock := stock p - q\<rparr>)) \<and>
      map_option stock (snd (reserve ps pid q) pid) = Some (stock p - q))"
  by (simp add: reserve_def)

theorem reserve_contract_witness:
  "reserve shop_products 3 1 = (Inl (ProductNotFound 3), shop_products) \<and>
   reserve shop_products 2 10 = (Inl (InsufficientStock ''B'' 2), shop_products) \<and>
   map_option stock (snd (reserve shop_products 1 3) 1) = Some 2"
  using reserve_contract [of shop_products 3 1] reserve_contract [of shop_products 2 10]
    reserve_contract [of shop_products 1 3]
  by (simp add: shop_products_def product_A_def product_B_def)

text \<open>
  C8. For a product with non-negative stock and a quantity that the stock covers, a
  reservation followed at once by a restock of the same quantity gives back the products
  collection as it was, so the product's stock is what it was before the pair.
\<close>

theorem reserve_restock_roundtrip:
  assumes "ps pid = Some p" and "0 \<le> stock p" and "q \<le> stock p"
  shows "fst (reserve ps pid q) = Inr (p\<lparr>stock := stock p - q\<rparr>) \<and>
         restock (snd (reserve ps pid q)) pid q = ps \<and>
         map_option stock (restock (snd (reserve ps pid q)) pid q pid) = Some (stock p)"
  using assms by (auto simp: reserve_def restock_def)

theorem reserve_restock_roundtrip_witness:
  "shop_products 1 = Some product_A \<and> 0 \<le> stock product_A \<and> 3 \<le> stock product_A \<and>
   fst (reserve shop_products 1 3) = Inr (product_A\<lparr>stock := 2\<rparr>) \<and>
   restock (snd (reserve shop_products 1 3)) 1 3 = shop_products"
  using reserve_restock_roundtrip [of shop_products 1 product_A 3]
  by (simp add: shop_products_def product_A_def)

section \<open>Number values\<close>

text \<open>The binary64 values and the printed digits that the examples meet.\<close>

lemma double_values:
  "to_double 1 = Num 1"
  "to_double 5 = Num 5"
  "to_double 10 = Num 10"
  "to_double 20 = Num 20"
  "to_double 25 = Num 25"
  "to_double (1 / 8) = Num (1 / 8)"
  "to_double (13 / 100) = Num (1170935903116329 / 9007199254740992)"
  "to_double (1131529406376837 / 1125899906842624) = Num (1131529406376837 / 1125899906842624)"
  by code_simp+

lemma hundredths_values:
  "hundredths 25 = 2500"
  "hundredths (1 / 8) = 13"
  "hundredths (1131529406376837 / 1125899906842624) = 100"
  by code_simp+

lemma hundredths_near: "\<bar>of_int (hundredths x) / 100 - x\<bar> \<le> 1 / 200"
proof -
  define m :: rat where "m = of_int (hundredths x)"
  have "m \<le> x * 100 + 1 / 2 \<and> x * 100 - 1 / 2 \<le> m"
  proof (cases "x < 0")
    case True
    have "of_int \<lfloor>- x * 100 + 1 / 2\<rfloor> \<le> - x * 100 + 1 / 2"
      and "- x * 100 + 1 / 2 < of_int \<lfloor>- x * 100 + 1 / 2\<rfloor> + 1"
      by linarith+
    moreover have "m = - of_int \<lfloor>- x * 100 + 1 / 2\<rfloor>"
      using True by (simp add: m_def hundredths_def)
    ultimately show ?thesis by linarith
  next
    case False
    have "of_int \<lfloor>x * 100 + 1 / 2\<rfloor> \<le> x * 100 + 1 / 2"
      and "x * 100 + 1 / 2 < of_int \<lfloor>x * 100 + 1 / 2\<rfloor> + 1"
      by linarith+
    moreover have "m = of_int \<lfloor>x * 100 + 1 / 2\<rfloor>"
      using False by (simp add: m_def hundredths_def)
    ultimately show ?thesis by linarith
  qed
  then have "m / 100 - x \<le> 1 / 200" and "- (m / 100 - x) \<le> 1 / 200" by linarith+
  then show ?thesis unfolding m_def by (rule abs_leI)
qed

lemmas number_values = double_values hundredths_values

section \<open>The placement loop\<close>

text \<open>
  Whatever the loop returns, the products it leaves are the products it started from
  with each stock lowered by the quantities of the lines it reserved.
\<close>

lemma lower_stock_zero: "lower_stock ps (\<lambda>pid. 0) = ps"
proof
  fix pid show "lower_stock ps (\<lambda>pid. 0) pid = ps pid"
    by (cases "ps pid") (simp_all add: lower_stock_def)
qed

lemma lower_stock_upd:
  assumes "ps pid = Some p"
  shows "lower_stock (ps(pid \<mapsto> p\<lparr>stock := stock p - q\<rparr>)) f =
         lower_stock ps (\<lambda>x. (if x = pid then q else 0) + f x)"
proof
  fix x
  show "lower_stock (ps(pid \<mapsto> p\<lparr>stock := stock p - q\<rparr>)) f x =
        lower_stock ps (\<lambda>x. (if x = pid then q else 0) + f x) x"
    using assms by (cases "ps x") (auto simp: lower_stock_def algebra_simps)
qed

lemma lower_stock_cong:
  "(\<And>pid p. ps pid = Some p \<Longrightarrow> f pid = g pid) \<Longrightarrow> lower_stock ps f = lower_stock ps g"
proof
  fix x
  assume "\<And>pid p. ps pid = Some p \<Longrightarrow> f pid = g pid"
  then show "lower_stock ps f x = lower_stock ps g x"
    by (cases "ps x") (simp_all add: lower_stock_def)
qed

lemma line_quantity_Cons:
  "line_quantity pid (item # ls) = (if pid = productId item then quantity item else 0) + line_quantity pid ls"
  by (auto simp: line_quantity_def)

lemma process_items_products:
  "process_items ps ls acc tot = (res, ps') \<Longrightarrow>
     ps' = lower_stock ps (\<lambda>pid. line_quantity pid (reserved_lines ps ls))"
proof (induction ls arbitrary: ps acc tot)
  case Nil
  then show ?case by (simp add: lower_stock_zero line_quantity_def)
next
  case (Cons item rest)
  show ?case
  proof (cases "ps (productId item)")
    case None
    with Cons.prems show ?thesis
      by (simp add: reserve_def lower_stock_zero line_quantity_def)
  next
    case (Some p)
    show ?thesis
    proof (cases "stock p < quantity item")
      case True
      with Some Cons.prems show ?thesis
        by (simp add: reserve_def lower_stock_zero line_quantity_def)
    next
      case False
      let ?ps1 = "ps(productId item \<mapsto> p\<lparr>stock := stock p - quantity item\<rparr>)"
      from False Some Cons.prems
      have "process_items ?ps1 rest (acc @ [snapshot item (p\<lparr>stock := stock p - quantity item\<rparr>)])
              (number_add tot (number_mult (price p) (quantity item))) = (res, ps')"
        by (simp add: reserve_def)
      from Cons.IH [OF this]
      have "ps' = lower_stock ?ps1 (\<lambda>pid. line_quantity pid (reserved_lines ?ps1 rest))" .
      also have "\<dots> = lower_stock ps (\<lambda>x. (if x = productId item then quantity item else 0)
                     + line_quantity x (reserved_lines ?ps1 rest))"
        using Some by (simp add: lower_stock_upd)
      finally show ?thesis using False Some
        by (simp add: reserve_def line_quantity_Cons)
    qed
  qed
qed

lemma process_items_error:
  "process_items ps ls acc tot = (Inl e, ps') \<Longrightarrow>
     is_line_error e \<and> length (reserved_lines ps ls) < length ls"
proof (induction ls arbitrary: ps acc tot)
  case Nil
  then show ?case by simp
next
  case (Cons item rest)
  then show ?case
    by (cases "ps (productId item)")
       (force simp: reserve_def is_line_error_def split: if_splits)+
qed

lemma process_items_success:
  "process_items ps ls acc tot = (Inr (its, t), ps') \<Longrightarrow>
     reserved_lines ps ls = ls \<and>
     map quantity its = map quantity acc @ map quantity ls \<and>
     map productId its = map productId acc @ map productId ls \<and>
     (\<exists>new. its = acc @ new \<and> t = running_total_from tot new)"
proof (induction ls arbitrary: ps acc tot)
  case Nil
  then show ?case by (simp add: running_total_from_def)
next
  case (Cons item rest)
  show ?case
  proof (cases "reserve ps (productId item) (quantity item)")
    case (Pair r ps1)
    show ?thesis
    proof (cases r)
      case (Inl e)
      with Pair Cons.prems show ?thesis by simp
    next
      case (Inr p)
      let ?tot1 = "number_add tot (number_mult (price p) (quantity item))"
      from Inr Pair Cons.prems
      have "process_items ps1 rest (acc @ [snapshot item p]) ?tot1 = (Inr (its, t), ps')" by simp
      from Cons.IH [OF this] obtain new
        where r: "reserved_lines ps1 rest = rest"
          and q: "map quantity its = map quantity (acc @ [snapshot item p]) @ map quantity rest"
          and i: "map productId its = map productId (acc @ [snapshot item p]) @ map productId rest"
          and n: "its = (acc @ [snapshot item p]) @ new" and t: "t = running_total_from ?tot1 new"
        by blast
      have "its = acc @ (snapshot item p # new) \<and> t = running_total_from tot (snapshot item p # new)"
        using n t by (simp add: running_total_from_def snapshot_def)
      then have "\<exists>new. its = acc @ new \<and> t = running_total_from tot new" by blast
      with r q i Pair Inr show ?thesis by (simp add: snapshot_def)
    qed
  qed
qed

lemma process_items_total:
  assumes "fst (process_items ps ls [] (Num 0)) = Inr (its, t)"
  shows "t = running_total its"
proof -
  have "process_items ps ls [] (Num 0) = (Inr (its, t), snd (process_items ps ls [] (Num 0)))"
    using assms by (metis prod.collapse)
  from process_items_success [OF this] show ?thesis by (simp add: running_total_def)
qed

lemma new_order_valid:
  "new_order uid its t pm addr = Some ord \<Longrightarrow>
     items ord = its \<and> totalAmount ord = t \<and> list_all valid_item its \<and> valid_total t \<and>
     status ord = ''pending''"
  by (auto simp: new_order_def split: option.splits if_splits)

lemma build_order_error:
  assumes "build_order d uid u pm addr ls fixed clear = (Inl e, d')"
  shows "orders d' = orders d \<and> users d' = users d \<and>
         products d' = lower_stock (products d) (\<lambda>pid. line_quantity pid (reserved_lines (products d) ls)) \<and>
         (is_line_error e \<longrightarrow> length (reserved_lines (products d) ls) < length ls)"
proof (cases "process_items (products d) ls [] (Num 0)")
  case (Pair res ps)
  note prod = process_items_products [OF Pair]
  show ?thesis
  proof (cases res)
    case (Inl e')
    with Pair assms have "e' = e" and "d' = d\<lparr>products := ps\<rparr>"
      by (simp_all add: build_order_def)
    with Pair Inl prod process_items_error [of "products d" ls "[]" "Num 0" e ps] show ?thesis
      by simp
  next
    case (Inr pr)
    obtain its tot where pr: "pr = (its, tot)" by (cases pr)
    with Pair Inr assms have "e = ServerError" and "d' = d\<lparr>products := ps\<rparr>"
      by (auto simp: build_order_def split: option.splits)
    with prod show ?thesis by (simp add: is_line_error_def)
  qed
qed

lemma build_order_success:
  assumes "build_order d uid u pm addr ls fixed clear = (Inr ord, d')"
  shows "\<exists>its tot. fst (process_items (products d) ls [] (Num 0)) = Inr (its, tot) \<and>
           new_order uid its (if fixed then toFixed2 tot else tot) pm addr = Some ord \<and>
           orders d' = orders d @ [ord] \<and>
           products d' = snd (process_items (products d) ls [] (Num 0))"
  using assms
  by (cases fixed) (auto simp: build_order_def split: prod.splits sum.splits option.splits)

lemma place_order_build:
  assumes "place_order d r = (res, d') \<or> place_order_backend d r = (res, d')"
    and "cartItems r = Some ls"
  shows "(res, d') \<in> {(Inl UserNotFound, d), (Inl MissingShippingAddress, d), (Inl EmptyCart, d)} \<or>
         (\<exists>u clear. build_order d (req_userId r) u (req_paymentMethod r) (address u) ls True clear
            = (res, d'))"
  using assms
  by (auto simp: place_order_def place_order_backend_def split: option.splits if_splits)

lemma place_order_success:
  assumes "place_order d r = (Inr ord, d') \<or> place_order_backend d r = (Inr ord, d')"
  shows "\<exists>u ls clear. build_order d (req_userId r) u (req_paymentMethod r) (address u) ls True clear
           = (Inr ord, d')"
  using assms
  by (auto simp: place_order_def place_order_backend_def split: option.splits if_splits)

lemma place_order_combined_success:
  assumes "place_order_combined d r = (Inr ord, d')"
  shows "\<exists>u ls. build_order d (req_userId r) u (req_paymentMethod r) (req_shippingAddress r) ls
           False True = (Inr ord, d')"
  using assms
  by (auto simp: place_order_combined_def split: option.splits if_splits)

lemma place_order_example: "place_order shop order_request = (Inr placed_order, shop_placed)"
  by (simp add: handler_defs example_defs number_values)

text \<open>
  C1, as stated: a failing line leaves every product's stock as it was before the request.
  It does not: with product 1 at stock 5 and product 2 at stock 2, a cart asking 3 of
  product 1 and then 10 of product 2 fails on the second line, no order is stored, and
  product 1 is left at stock 2.
\<close>

theorem place_order_all_or_nothing_counterexample:
  "fst (place_order shop two_line_request) = Inl (InsufficientStock ''B'' 2) \<and>
   orders (snd (place_order shop two_line_request)) = orders shop \<and>
   map_option stock (products shop 1) = Some 5 \<and>
   map_option stock (products (snd (place_order shop two_line_request)) 1) = Some 2 \<and>
   fst (place_order_backend shop two_line_request) = Inl (InsufficientStock ''B'' 2) \<and>
   map_option stock (products (snd (place_order_backend shop two_line_request)) 1) = Some 2"
  by (simp add: handler_defs example_defs)

text \<open>
  C1, amended: when a line fails (product not found, or insufficient stock), in either
  of the two order-route handlers, no order is stored, and the products are those before the
  request with each stock lowered by the quantities of the lines before the first
  failing line, whose reservations are kept; so a product that none of those lines names
  keeps its stock.
\<close>

theorem place_order_line_failure:
  assumes "place_order d r = (Inl e, d') \<or> place_order_backend d r = (Inl e, d')"
    and "is_line_error e" and "cartItems r = Some ls"
  shows "orders d' = orders d \<and>
         length (reserved_lines (products d) ls) < length ls \<and>
         products d' = lower_stock (products d) (\<lambda>pid. line_quantity pid (reserved_lines (products d) ls)) \<and>
         (\<forall>pid. pid \<notin> productId ` set (reserved_lines (products d) ls) \<longrightarrow> products d' pid = products d pid)"
proof -
  from place_order_build [OF assms(1) assms(3)] assms(2)
  obtain u clear
    where "build_order d (req_userId r) u (req_paymentMethod r) (address u) ls True clear = (Inl e, d')"
    by (auto simp: is_line_error_def)
  from build_order_error [OF this] assms(2)
  have 1: "orders d' = orders d" and 2: "length (reserved_lines (products d) ls) < length ls"
    and 3: "products d' = lower_stock (products d) (\<lambda>pid. line_quantity pid (reserved_lines (products d) ls))"
    by simp_all
  have "products d' pid = products d pid" if "pid \<notin> productId ` set (reserved_lines (products d) ls)" for pid
  proof -
    have "filter (\<lambda>l. productId l = pid) (reserved_lines (products d) ls) = []"
      using that by (auto simp: filter_empty_conv)
    then show ?thesis
      by (cases "products d pid") (simp_all add: 3 lower_stock_def line_quantity_def)
  qed
  with 1 2 3 show ?thesis by blast
qed

theorem place_order_line_failure_witness:
  "place_order shop two_line_request =
     (Inl (InsufficientStock ''B'' 2), shop\<lparr>products := shop_products(1 \<mapsto> product_A\<lparr>stock := 2\<rparr>)\<rparr>) \<and>
   is_line_error (InsufficientStock ''B'' 2) \<and>
   cartItems two_line_request = Some [\<lparr>productId = 1, quantity = 3\<rparr>, \<lparr>productId = 2, quantity = 10\<rparr>] \<and>
   orders (shop\<lparr>products := shop_products(1 \<mapsto> product_A\<lparr>stock := 2\<rparr>)\<rparr>) = orders shop \<and>
   products (shop\<lparr>products := shop_products(1 \<mapsto> product_A\<lparr>stock := 2\<rparr>)\<rparr>) =
     lower_stock (products shop) (\<lambda>pid. line_quantity pid
       (reserved_lines (products shop) [\<lparr>productId = 1, quantity = 3\<rparr>, \<lparr>productId = 2, quantity = 10\<rparr>]))"
proof -
  have h: "place_order shop two_line_request =
     (Inl (InsufficientStock ''B'' 2), shop\<lparr>products := shop_products(1 \<mapsto> product_A\<lparr>stock := 2\<rparr>)\<rparr>)"
    by (simp add: handler_defs example_defs)
  have e: "is_line_error (InsufficientStock ''B'' 2)" by (simp add: is_line_error_def)
  have c: "cartItems two_line_request = Some [\<lparr>productId = 1, quantity = 3\<rparr>, \<lparr>productId = 2, quantity = 10\<rparr>]"
    by (simp add: two_line_request_def)
  from place_order_line_failure [OF disjI1 [OF h] e c] h e c show ?thesis
    by blast
qed

lemma new_order_invalid_item:
  assumes "it \<in> set its" and "quantity it \<le> 0"
  shows "new_order uid its t pm addr = None"
proof -
  have "\<not> valid_item it"
    using assms(2) by (simp add: valid_item_def)
  with assms(1) have "\<not> list_all valid_item its"
    unfolding list_all_iff by blast
  then show ?thesis by (simp add: new_order_def split: option.splits)
qed

lemma build_order_nonpositive:
  assumes "process_items (products d) ls [] (Num 0) = (Inr (its, t), ps')"
    and "l \<in> set ls" and "quantity l \<le> 0"
  shows "build_order d uid u pm addr ls fixed clear = (Inl ServerError, d\<lparr>products := ps'\<rparr>)"
proof -
  from process_items_success [OF assms(1)] have "map quantity its = map quantity ls" by simp
  then have "set (map quantity its) = set (map quantity ls)" by simp
  with assms(2) have "quantity l \<in> quantity ` set its" by auto
  then obtain it where "it \<in> set its" and "quantity it = quantity l" by auto
  with assms(3) have "new_order uid its (if fixed then toFixed2 t else t) pm addr = None"
    by (simp add: new_order_invalid_item)
  with assms(1) show ?thesis by (simp add: build_order_def)
qed

text \<open>
  C10. A line with a quantity of zero or less, for an existing product with non-negative
  stock, passes the stock check and sets the stock to the stock minus the quantity (a
  rise when the quantity is negative); when the loop has gone through a cart holding
  such a line, the Order schema's minimum quantity rejects the save, the answer is the
  server error, no order is stored, and the products stay as the loop left them.
\<close>

theorem nonpositive_quantity_leaks_stock:
  "(ps pid = Some p \<and> 0 \<le> stock p \<and> q \<le> 0 \<longrightarrow>
      \<not> stock p < q \<and>
      reserve ps pid q = (Inr (p\<lparr>stock := stock p - q\<rparr>), ps(pid \<mapsto> p\<lparr>stock := stock p - q\<rparr>))) \<and>
   (users d (req_userId r) = Some u \<and> cartItems r = Some ls \<and> l \<in> set ls \<and> quantity l \<le> 0 \<and>
    process_items (products d) ls [] (Num 0) = (Inr (its, t), ps') \<longrightarrow>
      place_order_backend d r = (Inl ServerError, d\<lparr>products := ps'\<rparr>) \<and>
      (usable_address (address u) \<longrightarrow> place_order d r = (Inl ServerError, d\<lparr>products := ps'\<rparr>))) \<and>
   (users d (req_userId r) = Some u \<and> cartItems r = Some [\<lparr>productId = pid, quantity = q\<rparr>] \<and>
    products d pid = Some p \<and> 0 \<le> stock p \<and> q \<le> 0 \<longrightarrow>
      place_order_backend d r =
        (Inl ServerError, d\<lparr>products := (products d)(pid \<mapsto> p\<lparr>stock := stock p - q\<rparr>)\<rparr>) \<and>
      (usable_address (address u) \<longrightarrow> place_order d r =
        (Inl ServerError, d\<lparr>products := (products d)(pid \<mapsto> p\<lparr>stock := stock p - q\<rparr>)\<rparr>)))"
proof (intro conjI impI)
  assume "ps pid = Some p \<and> 0 \<le> stock p \<and> q \<le> 0"
  then show "\<not> stock p < q"
    and "reserve ps pid q = (Inr (p\<lparr>stock := stock p - q\<rparr>), ps(pid \<mapsto> p\<lparr>stock := stock p - q\<rparr>))"
    by (simp_all add: reserve_def)
next
  assume a: "users d (req_userId r) = Some u \<and> cartItems r = Some ls \<and> l \<in> set ls \<and> quantity l \<le> 0 \<and>
    process_items (products d) ls [] (Num 0) = (Inr (its, t), ps')"
  then have ne: "\<not> empty_cart (cartItems r)" by (auto simp: empty_cart_def)
  from a have b: "\<And>addr fixed clear. build_order d (req_userId r) u (req_paymentMethod r) addr ls fixed clear
      = (Inl ServerError, d\<lparr>products := ps'\<rparr>)"
    by (intro build_order_nonpositive [of d ls its t ps' l]) simp_all
  from a ne b show "place_order_backend d r = (Inl ServerError, d\<lparr>products := ps'\<rparr>)"
    by (simp add: place_order_backend_def)
  assume "usable_address (address u)"
  with a ne b show "place_order d r = (Inl ServerError, d\<lparr>products := ps'\<rparr>)"
    by (simp add: place_order_def)
next
  assume a: "users d (req_userId r) = Some u \<and> cartItems r = Some [\<lparr>productId = pid, quantity = q\<rparr>] \<and>
    products d pid = Some p \<and> 0 \<le> stock p \<and> q \<le> 0"
  let ?ps' = "(products d)(pid \<mapsto> p\<lparr>stock := stock p - q\<rparr>)"
  from a have ne: "\<not> empty_cart (cartItems r)" by (auto simp: empty_cart_def)
  from a have pr: "process_items (products d) [\<lparr>productId = pid, quantity = q\<rparr>] [] (Num 0) =
      (Inr ([snapshot \<lparr>productId = pid, quantity = q\<rparr> (p\<lparr>stock := stock p - q\<rparr>)],
            number_add (Num 0) (number_mult (price p) q)), ?ps')"
    by (simp add: reserve_def)
  from a have b: "\<And>addr fixed clear. build_order d (req_userId r) u (req_paymentMethod r) addr
        [\<lparr>productId = pid, quantity = q\<rparr>] fixed clear
      = (Inl ServerError, d\<lparr>products := ?ps'\<rparr>)"
    by (intro build_order_nonpositive [OF pr, of "\<lparr>productId = pid, quantity = q\<rparr>"]) simp_all
  from a ne b show "place_order_backend d r = (Inl ServerError, d\<lparr>products := ?ps'\<rparr>)"
    by (simp add: place_order_backend_def)
  assume "usable_address (address u)"
  with a ne b show "place_order d r = (Inl ServerError, d\<lparr>products := ?ps'\<rparr>)"
    by (simp add: place_order_def)
qed

theorem nonpositive_quantity_leaks_stock_witness:
  "shop_products 1 = Some product_A \<and> 0 \<le> stock product_A \<and> (- 3 :: int) \<le> 0 \<and>
   reserve shop_products 1 (- 3) =
     (Inr (product_A\<lparr>stock := 8\<rparr>), shop_products(1 \<mapsto> product_A\<lparr>stock := 8\<rparr>)) \<and>
   users shop (req_userId negative_request) = Some customer \<and>
   cartItems negative_request = Some [\<lparr>productId = 1, quantity = - 3\<rparr>] \<and>
   usable_address (address customer) \<and>
   place_order shop negative_request =
     (Inl ServerError, shop\<lparr>products := shop_products(1 \<mapsto> product_A\<lparr>stock := 8\<rparr>)\<rparr>) \<and>
   place_order_backend shop negative_request =
     (Inl ServerError, shop\<lparr>products := shop_products(1 \<mapsto> product_A\<lparr>stock := 8\<rparr>)\<rparr>) \<and>
   http_status ServerError = 500"
  using nonpositive_quantity_leaks_stock [of shop_products 1 product_A "- 3" shop negative_request
      customer "[\<lparr>productId = 1, quantity = - 3\<rparr>]" "\<lparr>productId = 1, quantity = - 3\<rparr>"]
  by (simp add: example_defs usable_address_def falsy_def ascii_def)

text \<open>
  The handler with the address check rejects a request of a user without a usable
  profile address before anything is read or written.
\<close>

lemma place_order_missing_address:
  assumes "users d (req_userId r) = Some u" and "\<not> usable_address (address u)"
  shows "place_order d r = (Inl MissingShippingAddress, d) \<and> http_status MissingShippingAddress = 400"
  using assms by (simp add: place_order_def)

text \<open>
  C9. A request of a user with no usable shipping address is to be rejected with the
  missing-address error, with no order and no stock change. The handler with the check
  does so; the handler of \<^verbatim>\<open>backend/routes/orderRoutes.js\<close> does not: for a profile
  address of N/A it stores the order and lowers the stock, and for a profile without an
  address it lowers the stock and answers with the server error.
\<close>

theorem backend_places_order_without_address:
  "\<not> usable_address (address na_customer) \<and>
   place_order na_shop order_request = (Inl MissingShippingAddress, na_shop) \<and>
   place_order_backend na_shop order_request =
     (Inr (placed_order\<lparr>shippingAddress := ascii ''N/A''\<rparr>),
      \<lparr>users = [7 \<mapsto> na_customer],
       products = [1 \<mapsto> product_A\<lparr>stock := 3\<rparr>, 2 \<mapsto> product_B\<lparr>stock := 1\<rparr>],
       orders = [placed_order\<lparr>shippingAddress := ascii ''N/A''\<rparr>]\<rparr>) \<and>
   place_order no_address_shop order_request = (Inl MissingShippingAddress, no_address_shop) \<and>
   place_order_backend no_address_shop order_request =
     (Inl ServerError,
      no_address_shop\<lparr>products := [1 \<mapsto> product_A\<lparr>stock := 3\<rparr>, 2 \<mapsto> product_B\<lparr>stock := 1\<rparr>]\<rparr>)"
  by (simp add: handler_defs example_defs number_values)

section \<open>The stored total\<close>

lemma orders_kept_refl: "orders_kept d d"
  by (simp add: orders_kept_def)

lemma orders_kept_trans: "orders_kept a b \<Longrightarrow> orders_kept b c \<Longrightarrow> orders_kept a c"
  by (auto simp: orders_kept_def)

lemma build_order_kept: "orders_kept d (snd (build_order d uid u pm addr ls fixed clear))"
  by (auto simp: build_order_def orders_kept_def nth_append split: prod.splits sum.splits option.splits)

lemma place_order_kept:
  "orders_kept d (snd (place_order d r))" "orders_kept d (snd (place_order_backend d r))"
  "orders_kept d (snd (place_order_combined d r))"
  by (auto simp: place_order_def place_order_backend_def place_order_combined_def
      build_order_kept orders_kept_refl split: option.splits)

lemma update_order_status_kept:
  "orders_kept d (snd (update_order_status d oid s))"
  "orders_kept d (snd (update_order_status_backend d oid s))"
  "orders_kept d (snd (update_order_status_combined d oid s))"
  by (auto simp: update_order_status_def update_order_status_backend_def
      update_order_status_combined_def set_status_def orders_kept_def nth_list_update)

lemma update_product_price_kept: "orders_kept d (update_product_price d pid pr)"
  by (auto simp: update_product_price_def orders_kept_def split: option.splits)

lemma handle_kept: "orders_kept d (handle d rq)"
  by (cases rq)
     (simp_all add: place_order_kept update_order_status_kept update_product_price_kept)

lemma run_kept: "orders_kept d (run d rs)"
proof (induction rs arbitrary: d)
  case Nil
  then show ?case by (simp add: run_def orders_kept_refl)
next
  case (Cons rq rs)
  from orders_kept_trans [OF handle_kept [of d rq] Cons.IH [of "handle d rq"]]
  show ?case by (simp add: run_def)
qed

lemma build_order_total:
  assumes "build_order d uid u pm addr ls fixed clear = (Inr ord, d')"
  shows "totalAmount ord = (if fixed then toFixed2 (running_total (items ord)) else running_total (items ord))
         \<and> orders d' = orders d @ [ord]"
proof -
  from build_order_success [OF assms] obtain its t
    where p: "fst (process_items (products d) ls [] (Num 0)) = Inr (its, t)"
      and n: "new_order uid its (if fixed then toFixed2 t else t) pm addr = Some ord"
      and o: "orders d' = orders d @ [ord]"
    by blast
  from process_items_total [OF p] new_order_valid [OF n] o show ?thesis by simp
qed

text \<open>
  C6, as stated: the stored total is the sum of the lines' prices times quantities. It is
  not for a price with more than two decimals: one unit of a product priced 0.125 makes
  a sum of 0.125, and the order routes store the binary64 value nearest to 0.13.
\<close>

theorem totalAmount_exact_sum_counterexample:
  "fst (place_order fraction_shop eighth_request) = Inr eighth_order \<and>
   fst (place_order_backend fraction_shop eighth_request) = Inr eighth_order \<and>
   order_sum (items eighth_order) = 1 / 8 \<and>
   running_total (items eighth_order) = Num (1 / 8) \<and>
   totalAmount eighth_order = Num (1170935903116329 / 9007199254740992) \<and>
   totalAmount eighth_order \<noteq> Num (1 / 8)"
  by (simp add: handler_defs example_defs number_values order_sum_def running_total_def
      running_total_from_def)

text \<open>
  C6, amended: for every order that a placement handler creates, the stored total is the
  handler's running total of the lines' prices times quantities (binary64 products,
  added in line order): as computed in the handler of the combined routes file, and
  passed through \<^verbatim>\<open>toFixed(2)\<close> in the two order-route handlers, where a running
  total below \<open>10 ^ 21\<close> is stored as the binary64 value nearest to the multiple of
  0.01 nearest to it (the one of larger magnitude of two), which is within 0.005 of it.
  After any later sequence of requests, changes of product prices among them, the order
  is still stored with the same lines and the same total.
\<close>

theorem totalAmount_rounded_running_total:
  assumes "place_order d r = (Inr ord, d') \<or> place_order_backend d r = (Inr ord, d') \<or>
           place_order_combined d r = (Inr ord, d')"
  shows "(place_order d r = (Inr ord, d') \<or> place_order_backend d r = (Inr ord, d') \<longrightarrow>
            totalAmount ord = toFixed2 (running_total (items ord)) \<and>
            (\<forall>x. running_total (items ord) = Num x \<and> \<bar>x\<bar> < 10 ^ 21 \<longrightarrow>
                 totalAmount ord = to_double (of_int (hundredths x) / 100) \<and>
                 \<bar>of_int (hundredths x) / 100 - x\<bar> \<le> 1 / 200)) \<and>
         (place_order_combined d r = (Inr ord, d') \<longrightarrow>
            totalAmount ord = running_total (items ord)) \<and>
         orders d' = orders d @ [ord] \<and>
         (\<forall>rs. length (orders d) < length (orders (run d' rs)) \<and>
               items (orders (run d' rs) ! length (orders d)) = items ord \<and>
               totalAmount (orders (run d' rs) ! length (orders d)) = totalAmount ord)"
proof -
  have 1: "totalAmount ord = toFixed2 (running_total (items ord)) \<and>
        (\<forall>x. running_total (items ord) = Num x \<and> \<bar>x\<bar> < 10 ^ 21 \<longrightarrow>
             totalAmount ord = to_double (of_int (hundredths x) / 100) \<and>
             \<bar>of_int (hundredths x) / 100 - x\<bar> \<le> 1 / 200)"
    if "place_order d r = (Inr ord, d') \<or> place_order_backend d r = (Inr ord, d')"
  proof -
    from place_order_success [OF that] obtain u ls clear
      where "build_order d (req_userId r) u (req_paymentMethod r) (address u) ls True clear = (Inr ord, d')"
      by blast
    from build_order_total [OF this]
    have t: "totalAmount ord = toFixed2 (running_total (items ord))" by simp
    have "totalAmount ord = to_double (of_int (hundredths x) / 100)"
      if "running_total (items ord) = Num x" and "\<bar>x\<bar> < 10 ^ 21" for x
      using t that by simp
    with t hundredths_near show ?thesis by blast
  qed
  have 2: "totalAmount ord = running_total (items ord)"
    if "place_order_combined d r = (Inr ord, d')"
  proof -
    from place_order_combined_success [OF that] obtain u ls
      where "build_order d (req_userId r) u (req_paymentMethod r) (req_shippingAddress r) ls
               False True = (Inr ord, d')"
      by blast
    from build_order_total [OF this] show ?thesis by simp
  qed
  have o: "orders d' = orders d @ [ord]"
  proof -
    from assms place_order_success place_order_combined_success
    obtain u pm addr ls fixed clear
      where "build_order d (req_userId r) u pm addr ls fixed clear = (Inr ord, d')"
      by blast
    from build_order_total [OF this] show ?thesis by simp
  qed
  have 3: "length (orders d) < length (orders (run d' rs)) \<and>
        items (orders (run d' rs) ! length (orders d)) = items ord \<and>
        totalAmount (orders (run d' rs) ! length (orders d)) = totalAmount ord" for rs
    using run_kept [of d' rs] o by (auto simp: orders_kept_def)
  from 1 2 3 o show ?thesis by blast
qed

theorem totalAmount_rounded_running_total_witness:
  "fst (place_order fraction_shop cent_request) = Inr cent_order \<and>
   running_total (items cent_order) = Num (1131529406376837 / 1125899906842624) \<and>
   \<bar>1131529406376837 / 1125899906842624 :: rat\<bar> < 10 ^ 21 \<and>
   totalAmount cent_order = to_double (of_int (hundredths (1131529406376837 / 1125899906842624)) / 100) \<and>
   totalAmount cent_order = Num 1 \<and>
   fst (place_order_combined fraction_shop cent_request) =
     Inr (cent_order\<lparr>totalAmount := Num (1131529406376837 / 1125899906842624)\<rparr>) \<and>
   totalAmount (cent_order\<lparr>totalAmount := Num (1131529406376837 / 1125899906842624)\<rparr>) =
     running_total (items (cent_order\<lparr>totalAmount := Num (1131529406376837 / 1125899906842624)\<rparr>)) \<and>
   totalAmount (orders (run (snd (place_order fraction_shop cent_request))
       [UpdateProductPrice 4 2, UpdateOrderStatus 0 ''cancelled'']) ! length (orders fraction_shop))
     = totalAmount cent_order"
proof -
  have f: "fst (place_order fraction_shop cent_request) = Inr cent_order"
    by (simp add: handler_defs example_defs number_values)
  then have h: "place_order fraction_shop cent_request =
      (Inr cent_order, snd (place_order fraction_shop cent_request))"
    by (metis prod.collapse)
  have g: "fst (place_order_combined fraction_shop cent_request) =
      Inr (cent_order\<lparr>totalAmount := Num (1131529406376837 / 1125899906842624)\<rparr>)"
    by (simp add: handler_defs example_defs number_values)
  then have k: "place_order_combined fraction_shop cent_request =
      (Inr (cent_order\<lparr>totalAmount := Num (1131529406376837 / 1125899906842624)\<rparr>),
       snd (place_order_combined fraction_shop cent_request))"
    by (metis prod.collapse)
  have t: "running_total (items cent_order) = Num (1131529406376837 / 1125899906842624)"
    by (simp add: example_defs number_values running_total_def running_total_from_def number_mult_def)
  have b: "\<bar>1131529406376837 / 1125899906842624 :: rat\<bar> < 10 ^ 21" by simp
  have v: "totalAmount cent_order = Num 1" by (simp add: cent_order_def)
  from totalAmount_rounded_running_total [OF disjI1 [OF h]]
    totalAmount_rounded_running_total [OF disjI2 [OF disjI2 [OF k]]] h k f g t b v
  show ?thesis by (intro conjI) blast+
qed

section \<open>The status update\<close>

lemma cancel_example: "update_order_status shop_placed 0 ''cancelled'' = (Inr (placed_order\<lparr>status := ''cancelled''\<rparr>), shop_cancelled)"
  by (simp add: status_defs example_defs)

lemma cancel_again_example: "update_order_status shop_cancelled 0 ''cancelled'' = (Inr (placed_order\<lparr>status := ''cancelled''\<rparr>), shop_cancelled)"
  by (simp add: status_defs example_defs)

text \<open>
  The handler with the guard: it refuses to take a cancelled order to any other status,
  with status code 400, and leaves it cancelled; the error is the invalid-transition
  error for each of the recognised statuses (an unrecognised one is refused before, as
  on any order, with the invalid-status error).
\<close>

lemma guarded_update_keeps_cancelled:
  assumes "oid < length (orders d)" and "status (orders d ! oid) = ''cancelled''"
    and "s \<noteq> ''cancelled''"
  shows "update_order_status d oid s =
           (Inl (if s \<in> set validStatuses then InvalidTransition else InvalidStatus), d) \<and>
         http_status (if s \<in> set validStatuses then InvalidTransition else InvalidStatus) = 400 \<and>
         status (orders (snd (update_order_status d oid s)) ! oid) = ''cancelled''"
  using assms by (simp add: update_order_status_def)

lemma guarded_update_invalid_transition:
  assumes "oid < length (orders d)" and "status (orders d ! oid) = ''cancelled''"
    and "s \<in> set validStatuses" and "s \<noteq> ''cancelled''"
  shows "update_order_status d oid s = (Inl InvalidTransition, d) \<and>
         http_status InvalidTransition = 400"
  using assms by (simp add: update_order_status_def)

lemma unguarded_update_status:
  assumes "oid < length (orders d)" and "s \<in> set validStatuses"
  shows "status (orders (snd (update_order_status_backend d oid s)) ! oid) = s"
    and "status (orders (snd (update_order_status_combined d oid s)) ! oid) = s"
  using assms
  by (simp_all add: update_order_status_backend_def update_order_status_combined_def set_status_def)

text \<open>
  C3. A cancelled order is to stay cancelled: an update to any other status fails with
  the invalid-transition error. The handler with the guard does so (above); the
  handlers of \<^verbatim>\<open>backend/routes/orderRoutes.js\<close> and of the combined routes file have
  no guard and take the cancelled order back to pending.
\<close>

theorem unguarded_update_reopens_cancelled:
  "status (orders shop_cancelled ! 0) = ''cancelled'' \<and>
   update_order_status shop_cancelled 0 ''pending'' = (Inl InvalidTransition, shop_cancelled) \<and>
   update_order_status_backend shop_cancelled 0 ''pending'' =
     (Inr (placed_order\<lparr>status := ''pending''\<rparr>),
      shop_cancelled\<lparr>orders := [placed_order\<lparr>status := ''pending''\<rparr>]\<rparr>) \<and>
   update_order_status_combined shop_cancelled 0 ''pending'' =
     (Inr (placed_order\<lparr>status := ''pending''\<rparr>),
      shop_cancelled\<lparr>orders := [placed_order\<lparr>status := ''pending''\<rparr>]\<rparr>)"
  by (simp add: status_defs example_defs)

text \<open>
  The handler with the cancellation branch: over any sequence of status updates of an
  order that is not cancelled, the products are restocked once by the order's lines if
  the sequence asks for cancelled, and untouched if it does not; once the order is
  cancelled no update touches the products. A restock raises each existing product's
  stock by the quantities of the lines naming it.
\<close>

lemma item_quantity_Cons:
  "item_quantity pid (it # its) = (if pid = productId it then quantity it else 0) + item_quantity pid its"
  by (auto simp: item_quantity_def)

lemma restock_items_eq:
  "restock_items ps its = lower_stock ps (\<lambda>pid. - item_quantity pid its)"
proof (induction its arbitrary: ps)
  case Nil
  then show ?case by (simp add: item_quantity_def lower_stock_zero)
next
  case (Cons it its)
  show ?case
  proof (cases "ps (productId it)")
    case None
    then have "restock_items ps (it # its) = lower_stock ps (\<lambda>pid. - item_quantity pid its)"
      by (simp add: restock_def Cons.IH)
    also have "\<dots> = lower_stock ps (\<lambda>pid. - item_quantity pid (it # its))"
      using None by (intro lower_stock_cong) (auto simp: item_quantity_Cons)
    finally show ?thesis .
  next
    case (Some p)
    then have r: "restock ps (productId it) (quantity it) =
        ps(productId it \<mapsto> p\<lparr>stock := stock p - (- quantity it)\<rparr>)"
      by (simp add: restock_def)
    have "restock_items ps (it # its) =
        lower_stock (ps(productId it \<mapsto> p\<lparr>stock := stock p - (- quantity it)\<rparr>)) (\<lambda>pid. - item_quantity pid its)"
      unfolding restock_items.simps r by (rule Cons.IH)
    also have "\<dots> = lower_stock ps (\<lambda>x. (if x = productId it then - quantity it else 0) + (- item_quantity x its))"
      using Some by (simp only: lower_stock_upd)
    also have "\<dots> = lower_stock ps (\<lambda>pid. - item_quantity pid (it # its))"
      by (intro lower_stock_cong) (auto simp: item_quantity_Cons)
    finally show ?thesis .
  qed
qed

lemma update_order_status_orders:
  "length (orders (snd (update_order_status d oid s))) = length (orders d) \<and>
   (\<forall>i < length (orders d). items (orders (snd (update_order_status d oid s)) ! i) = items (orders d ! i) \<and>
        totalAmount (orders (snd (update_order_status d oid s)) ! i) = totalAmount (orders d ! i))"
  by (auto simp: update_order_status_def set_status_def nth_list_update)

lemma update_sequence_cancelled:
  assumes "oid < length (orders d)" and "status (orders d ! oid) = ''cancelled''"
  shows "products (update_sequence d oid ss) = products d \<and>
         status (orders (update_sequence d oid ss) ! oid) = ''cancelled''"
  using assms
proof (induction ss arbitrary: d)
  case Nil
  then show ?case by (simp add: update_sequence_def)
next
  case (Cons s ss)
  let ?d1 = "snd (update_order_status d oid s)"
  have 1: "products ?d1 = products d" and 2: "status (orders ?d1 ! oid) = ''cancelled''"
    and 3: "oid < length (orders ?d1)"
    using Cons.prems by (auto simp: update_order_status_def set_status_def)
  have "update_sequence d oid (s # ss) = update_sequence ?d1 oid ss"
    by (simp add: update_sequence_def)
  with Cons.IH [OF 3 2] 1 show ?case by simp
qed

lemma cancel_restocks_exactly_once:
  assumes "oid < length (orders d)" and "status (orders d ! oid) \<noteq> ''cancelled''"
  shows "products (update_sequence d oid ss) =
           (if ''cancelled'' \<in> set ss
            then lower_stock (products d) (\<lambda>pid. - item_quantity pid (items (orders d ! oid)))
            else products d)"
  using assms
proof (induction ss arbitrary: d)
  case Nil
  then show ?case by (simp add: update_sequence_def)
next
  case (Cons s ss)
  let ?d1 = "snd (update_order_status d oid s)"
  have step: "update_sequence d oid (s # ss) = update_sequence ?d1 oid ss"
    by (simp add: update_sequence_def)
  have len: "oid < length (orders ?d1)"
    using Cons.prems update_order_status_orders [of d oid s] by simp
  show ?case
  proof (cases "s = ''cancelled''")
    case True
    have "products ?d1 = restock_items (products d) (items (orders d ! oid))"
      and "status (orders ?d1 ! oid) = ''cancelled''"
      using Cons.prems True by (simp_all add: update_order_status_def set_status_def validStatuses_def)
    with update_sequence_cancelled [OF len, of ss] step True show ?thesis
      by (simp add: restock_items_eq)
  next
    case False
    have 1: "products ?d1 = products d" and 2: "status (orders ?d1 ! oid) \<noteq> ''cancelled''"
      and 3: "items (orders ?d1 ! oid) = items (orders d ! oid)"
      using Cons.prems False by (auto simp: update_order_status_def set_status_def)
    from Cons.IH [OF len 2] step 1 3 False show ?thesis by simp
  qed
qed

lemma update_order_status_backend_products:
  "products (snd (update_order_status_backend d oid s)) = products d"
  by (simp add: update_order_status_backend_def set_status_def)

text \<open>
  C2. Cancelling an order is to restock each of its lines once. The handler with the
  cancellation branch does (above); the handler of
  \<^verbatim>\<open>backend/routes/orderRoutes.js\<close> sets the status and restocks nothing: cancelling
  the order of 2 of product 1 leaves product 1 at stock 3, where the other handler
  brings it back to 5.
\<close>

theorem backend_cancel_no_restock:
  "update_order_status_backend shop_placed 0 ''cancelled'' =
     (Inr (placed_order\<lparr>status := ''cancelled''\<rparr>),
      shop_placed\<lparr>orders := [placed_order\<lparr>status := ''cancelled''\<rparr>]\<rparr>) \<and>
   map_option stock (products (snd (update_order_status_backend shop_placed 0 ''cancelled'')) 1) = Some 3 \<and>
   map_option stock (products (snd (update_order_status shop_placed 0 ''cancelled'')) 1) = Some 5"
  by (simp add: status_defs example_defs)

section \<open>Stock is never negative\<close>

lemma reserve_nonneg:
  assumes "reserve ps pid q = (res, ps')" and "stock_nonneg ps"
  shows "stock_nonneg ps'"
  using assms
  by (auto simp: reserve_def stock_nonneg_def split: option.splits if_splits)

lemma process_items_nonneg:
  "process_items ps ls acc t = (res, ps') \<Longrightarrow> stock_nonneg ps \<Longrightarrow> stock_nonneg ps'"
proof (induction ls arbitrary: ps acc t)
  case Nil
  then show ?case by simp
next
  case (Cons item rest)
  obtain r ps1 where r: "reserve ps (productId item) (quantity item) = (r, ps1)"
    by (cases "reserve ps (productId item) (quantity item)")
  from reserve_nonneg [OF r Cons.prems(2)] have n1: "stock_nonneg ps1" .
  show ?case
  proof (cases r)
    case (Inl e)
    with r Cons.prems(1) n1 show ?thesis by simp
  next
    case (Inr p)
    with r Cons.prems(1) have "process_items ps1 rest (acc @ [snapshot item p])
        (number_add t (number_mult (price p) (quantity item))) = (res, ps')" by simp
    from Cons.IH [OF this n1] show ?thesis .
  qed
qed

lemma build_order_inv:
  assumes "build_order d uid u pm addr ls fixed clear = (res, d')"
    and "stock_nonneg (products d)" and "orders_valid d"
  shows "stock_nonneg (products d') \<and> orders_valid d'"
proof -
  obtain r ps where p: "process_items (products d) ls [] (Num 0) = (r, ps)"
    by (cases "process_items (products d) ls [] (Num 0)")
  from process_items_nonneg [OF p assms(2)] have n: "stock_nonneg ps" .
  show ?thesis
  proof (cases r)
    case (Inl e)
    with p assms n show ?thesis by (auto simp: build_order_def orders_valid_def)
  next
    case (Inr pr)
    obtain its t where pr: "pr = (its, t)" by (cases pr)
    show ?thesis
    proof (cases "new_order uid its (if fixed then toFixed2 t else t) pm addr")
      case None
      with p Inr pr assms n show ?thesis by (auto simp: build_order_def orders_valid_def)
    next
      case (Some ord)
      from new_order_valid [OF Some] have "list_all valid_item (items ord)" by simp
      with Some p Inr pr assms n show ?thesis by (auto simp: build_order_def orders_valid_def)
    qed
  qed
qed

lemma place_order_inv:
  assumes "stock_nonneg (products d)" and "orders_valid d"
  shows "stock_nonneg (products (snd (place_order d r))) \<and> orders_valid (snd (place_order d r))"
    and "stock_nonneg (products (snd (place_order_backend d r))) \<and> orders_valid (snd (place_order_backend d r))"
    and "stock_nonneg (products (snd (place_order_combined d r))) \<and> orders_valid (snd (place_order_combined d r))"
  using assms build_order_inv [OF surjective_pairing assms]
  by (auto simp: place_order_def place_order_backend_def place_order_combined_def split: option.splits)

lemma restock_nonneg:
  "stock_nonneg ps \<Longrightarrow> 0 \<le> q \<Longrightarrow> stock_nonneg (restock ps pid q)"
  by (auto simp: restock_def stock_nonneg_def split: option.splits)

lemma restock_items_nonneg:
  "stock_nonneg ps \<Longrightarrow> list_all valid_item its \<Longrightarrow> stock_nonneg (restock_items ps its)"
proof (induction its arbitrary: ps)
  case Nil
  then show ?case by simp
next
  case (Cons it its)
  then have "0 \<le> quantity it" by (simp add: valid_item_def)
  with Cons show ?case by (simp add: restock_nonneg)
qed

lemma set_status_inv:
  assumes "oid < length (orders d)" and "orders_valid d"
  shows "orders_valid (snd (set_status d oid s)) \<and> products (snd (set_status d oid s)) = products d"
proof -
  have "list_all valid_item (items (orders d ! oid))"
    using assms by (simp add: orders_valid_def list_all_length)
  then have "list_all valid_item (items ((orders d ! oid)\<lparr>status := s\<rparr>))" by simp
  with assms(2) have "list_all (\<lambda>ord. list_all valid_item (items ord))
      ((orders d)[oid := (orders d ! oid)\<lparr>status := s\<rparr>])"
    unfolding orders_valid_def list_all_iff using set_update_subset_insert [of "orders d" oid]
    by blast
  then show ?thesis by (simp add: set_status_def orders_valid_def)
qed

lemma update_order_status_inv:
  assumes "stock_nonneg (products d)" and "orders_valid d"
  shows "stock_nonneg (products (snd (update_order_status d oid s))) \<and>
         orders_valid (snd (update_order_status d oid s))"
proof (cases "oid < length (orders d)")
  case False
  with assms show ?thesis by (simp add: update_order_status_def)
next
  case True
  let ?d1 = "d\<lparr>products := restock_items (products d) (items (orders d ! oid))\<rparr>"
  have v: "list_all valid_item (items (orders d ! oid))"
    using True assms(2) by (simp add: orders_valid_def list_all_length)
  have n1: "stock_nonneg (products ?d1)" using assms(1) v by (simp add: restock_items_nonneg)
  have v1: "orders_valid ?d1" using assms(2) by (simp add: orders_valid_def)
  have l1: "oid < length (orders ?d1)" using True by simp
  from set_status_inv [OF l1 v1, of s] n1 set_status_inv [OF True assms(2), of s] assms True
  show ?thesis by (auto simp: update_order_status_def)
qed

lemma update_order_status_backend_inv:
  assumes "stock_nonneg (products d)" and "orders_valid d"
  shows "stock_nonneg (products (snd (update_order_status_backend d oid s))) \<and>
         orders_valid (snd (update_order_status_backend d oid s))"
proof (cases "oid < length (orders d)")
  case False
  with assms show ?thesis by (simp add: update_order_status_backend_def)
next
  case True
  from set_status_inv [OF True assms(2), of s] assms True
  show ?thesis by (simp add: update_order_status_backend_def)
qed

lemma update_order_status_combined_inv:
  assumes "stock_nonneg (products d)" and "orders_valid d"
  shows "stock_nonneg (products (snd (update_order_status_combined d oid s))) \<and>
         orders_valid (snd (update_order_status_combined d oid s))"
proof (cases "oid < length (orders d)")
  case False
  with assms show ?thesis by (simp add: update_order_status_combined_def)
next
  case True
  from set_status_inv [OF True assms(2), of s] assms True
  show ?thesis by (simp add: update_order_status_combined_def)
qed

lemma update_product_price_inv:
  assumes "stock_nonneg (products d)" and "orders_valid d"
  shows "stock_nonneg (products (update_product_price d pid pr)) \<and>
         orders_valid (update_product_price d pid pr)"
  using assms
  by (auto simp: update_product_price_def stock_nonneg_def orders_valid_def split: option.splits)

lemma handle_inv:
  assumes "stock_nonneg (products d)" and "orders_valid d"
  shows "stock_nonneg (products (handle d rq)) \<and> orders_valid (handle d rq)"
  using place_order_inv [OF assms] update_order_status_inv [OF assms]
    update_order_status_backend_inv [OF assms] update_order_status_combined_inv [OF assms]
    update_product_price_inv [OF assms]
  by (cases rq) simp_all

lemma run_inv:
  "stock_nonneg (products d) \<Longrightarrow> orders_valid d \<Longrightarrow>
     stock_nonneg (products (run d rs)) \<and> orders_valid (run d rs)"
proof (induction rs arbitrary: d)
  case Nil
  then show ?case by (simp add: run_def)
next
  case (Cons rq rs)
  from handle_inv [OF Cons.prems, of rq] Cons.IH [of "handle d rq"]
  show ?case by (simp add: run_def)
qed

text \<open>
  C5. From a state in which no product has negative stock (and the stored orders pass the
  Order schema), after every request of every sequence of placements and status updates,
  through any version of the handlers, no product has negative stock.
\<close>

theorem stock_never_negative:
  assumes "stock_nonneg (products d)" and "orders_valid d"
  shows "\<forall>k \<le> length rs. stock_nonneg (products (run d (take k rs)))"
  using run_inv [OF assms] by blast

theorem stock_never_negative_witness:
  "stock_nonneg (products shop) \<and> orders_valid shop \<and> (7::nat) \<le> length busy_day \<and>
   stock_nonneg (products (run shop (take 7 busy_day)))"
proof -
  have h1: "stock_nonneg (products shop)"
    by (auto simp: stock_nonneg_def example_defs split: if_splits)
  have h2: "orders_valid shop" by (simp add: orders_valid_def shop_def)
  have h3: "(7::nat) \<le> length busy_day" by (simp add: busy_day_def)
  from stock_never_negative [OF h1 h2, of busy_day] h1 h2 h3 show ?thesis by blast
qed

section \<open>Reservations that interleave\<close>

text \<open>
  Read and test, then decrement and save, with nothing in between, is the reservation
  of the placement loop.
\<close>

lemma reserve_split:
  "reserve ps pid q =
     (case read_check ps pid q of
        Inl e \<Rightarrow> (Inl e, ps)
      | Inr p \<Rightarrow> (Inr (fst (write_back ps pid q p)), snd (write_back ps pid q p)))"
  by (simp add: reserve_def read_check_def write_back_def split: option.splits)

lemma advance_twice:
  "advance (snd (advance ps (Waiting pid q))) (fst (advance ps (Waiting pid q))) =
     (Settled (fst (reserve ps pid q)), snd (reserve ps pid q))"
  by (simp add: reserve_split split: sum.splits)

lemma advance_inv:
  assumes "stock_nonneg ps" and "covered a"
  shows "stock_nonneg (snd (advance ps a)) \<and> covered (fst (advance ps a))"
proof (cases a)
  case (Waiting pid q)
  with assms show ?thesis
    by (auto simp: read_check_def split: option.splits sum.splits if_splits)
next
  case (Loaded pid q p)
  with assms show ?thesis by (auto simp: write_back_def stock_nonneg_def)
next
  case (Settled r)
  with assms show ?thesis by simp
qed

lemma interleave_inv:
  "stock_nonneg ps \<Longrightarrow> covered a \<Longrightarrow> covered b \<Longrightarrow>
     stock_nonneg (snd (snd (interleave ps a b sch)))"
proof (induction sch arbitrary: ps a b)
  case Nil
  then show ?case by simp
next
  case (Cons t sch)
  show ?case
  proof (cases t)
    case First
    from advance_inv [OF Cons.prems(1) Cons.prems(2)] Cons.prems(3) Cons.IH First
    show ?thesis by simp
  next
    case Second
    from advance_inv [OF Cons.prems(1) Cons.prems(3)] Cons.prems(2) Cons.IH Second
    show ?thesis by simp
  qed
qed

text \<open>
  C7, as stated: of two concurrent reservations of 6 against a stock of 10, exactly one
  succeeds. When both read before either saves, both pass the stock test on the 10 they
  read, both succeed, and both save a stock of 4.
\<close>

theorem concurrent_reservations_counterexample:
  "map_option stock (ten_products 5) = Some 10 \<and>
   interleave ten_products (Waiting 5 6) (Waiting 5 6) [First, Second, First, Second] =
     (Settled (Inr (product_T\<lparr>stock := 4\<rparr>)), Settled (Inr (product_T\<lparr>stock := 4\<rparr>)),
      ten_products(5 \<mapsto> product_T\<lparr>stock := 4\<rparr>))"
  by (simp add: read_check_def write_back_def ten_products_def product_T_def)

text \<open>
  C7, amended: of two reservations against the same product, each within the stock but
  not both together, exactly one succeeds and the other fails with the
  insufficient-stock error when one runs after the other has saved; when both read
  before either saves, both succeed; and under every interleaving of their reads and
  saves no stock goes negative.
\<close>

theorem reservations_one_after_the_other:
  assumes "ps pid = Some p" and "q1 \<le> stock p" and "q2 \<le> stock p" and "stock p < q1 + q2"
    and "stock_nonneg ps"
  shows "interleave ps (Waiting pid q1) (Waiting pid q2) [First, First, Second, Second] =
           (Settled (Inr (p\<lparr>stock := stock p - q1\<rparr>)),
            Settled (Inl (InsufficientStock (name p) (stock p - q1))),
            ps(pid \<mapsto> p\<lparr>stock := stock p - q1\<rparr>)) \<and>
         interleave ps (Waiting pid q1) (Waiting pid q2) [Second, Second, First, First] =
           (Settled (Inl (InsufficientStock (name p) (stock p - q2))),
            Settled (Inr (p\<lparr>stock := stock p - q2\<rparr>)),
            ps(pid \<mapsto> p\<lparr>stock := stock p - q2\<rparr>)) \<and>
         (\<forall>sch \<in> {[First, Second, First, Second], [First, Second, Second, First],
                    [Second, First, First, Second], [Second, First, Second, First]}.
            succeeded (fst (interleave ps (Waiting pid q1) (Waiting pid q2) sch)) \<and>
            succeeded (fst (snd (interleave ps (Waiting pid q1) (Waiting pid q2) sch)))) \<and>
         (\<forall>sch. stock_nonneg (snd (snd (interleave ps (Waiting pid q1) (Waiting pid q2) sch))))"
proof -
  have 1: "interleave ps (Waiting pid q1) (Waiting pid q2) [First, First, Second, Second] =
           (Settled (Inr (p\<lparr>stock := stock p - q1\<rparr>)),
            Settled (Inl (InsufficientStock (name p) (stock p - q1))),
            ps(pid \<mapsto> p\<lparr>stock := stock p - q1\<rparr>))"
    using assms by (simp add: read_check_def write_back_def)
  have 2: "interleave ps (Waiting pid q1) (Waiting pid q2) [Second, Second, First, First] =
           (Settled (Inl (InsufficientStock (name p) (stock p - q2))),
            Settled (Inr (p\<lparr>stock := stock p - q2\<rparr>)),
            ps(pid \<mapsto> p\<lparr>stock := stock p - q2\<rparr>))"
    using assms by (simp add: read_check_def write_back_def)
  have 3: "\<forall>sch \<in> {[First, Second, First, Second], [First, Second, Second, First],
                    [Second, First, First, Second], [Second, First, Second, First]}.
            succeeded (fst (interleave ps (Waiting pid q1) (Waiting pid q2) sch)) \<and>
            succeeded (fst (snd (interleave ps (Waiting pid q1) (Waiting pid q2) sch)))"
    using assms by (simp add: read_check_def write_back_def succeeded_def)
  have 4: "stock_nonneg (snd (snd (interleave ps (Waiting pid q1) (Waiting pid q2) sch)))" for sch
    using assms(5) by (simp add: interleave_inv)
  from 1 2 3 4 show ?thesis by blast
qed

theorem reservations_one_after_the_other_witness:
  "ten_products 5 = Some product_T \<and> 6 \<le> stock product_T \<and> stock product_T < 6 + 6 \<and>
   stock_nonneg ten_products \<and>
   interleave ten_products (Waiting 5 6) (Waiting 5 6) [First, First, Second, Second] =
     (Settled (Inr (product_T\<lparr>stock := stock product_T - 6\<rparr>)),
      Settled (Inl (InsufficientStock (name product_T) (stock product_T - 6))),
      ten_products(5 \<mapsto> product_T\<lparr>stock := stock product_T - 6\<rparr>)) \<and>
   stock product_T - 6 = 4 \<and>
   stock_nonneg (snd (snd (interleave ten_products (Waiting 5 6) (Waiting 5 6)
     [First, Second, First, Second])))"
proof -
  have h1: "ten_products 5 = Some product_T" by (simp add: ten_products_def)
  have h2: "6 \<le> stock product_T" by (simp add: product_T_def)
  have h3: "stock product_T < 6 + 6" by (simp add: product_T_def)
  have h4: "stock_nonneg ten_products"
    by (auto simp: stock_nonneg_def ten_products_def product_T_def split: if_splits)
  have h5: "stock product_T - 6 = 4" by (simp add: product_T_def)
  from reservations_one_after_the_other [OF h1 h2 h2 h3 h4] h1 h2 h3 h4 h5
  show ?thesis by blast
qed

end
